theory Spec2Isabelle
  imports Main "HOL-Library.Sublist"
begin

section \<open>The preview object store of the Azure plugin (object_store_preview.go)\<close>

text \<open>
  The file is a thin adapter: every method of \<open>ObjectStorePreview\<close> builds a handle
  from the stored service client and makes calls into the blob SDK. The SDK, the URL
  parser, the configuration validator of the host and the key resolver are not part of
  the file, so the model takes them as parameters (records of functions). What the file
  itself decides is modelled as written: which call is made with which arguments, which
  error is tested, what is returned, and what is stored in the adapter.
\<close>

subsection \<open>Go values\<close>

text \<open>
  A Go \<open>error\<close> is either nil (\<open>None\<close>) or a value. The one property of an error the
  file inspects is whether it implements \<open>azblob.StorageError\<close> and, if so, the status
  code of its response: \<open>StorageError\<close> carries that code, \<open>PlainError\<close> is any error on
  which the type assertion \<open>err.(azblob.StorageError)\<close> fails.
\<close>

datatype go_error = StorageError int string | PlainError string

text \<open>
  A call either returns its results or panics. The only panic the file can raise by
  itself is the dereference of a nil pointer.
\<close>

datatype 'a outcome = Panic | Returns 'a

subsection \<open>Handles of the SDK\<close>

text \<open>
  \<open>NewPipeline\<close>, \<open>NewServiceURL\<close>, \<open>NewContainerURL\<close>, \<open>NewBlobURL\<close> and
  \<open>NewBlockBlobURL\<close> only build values and cannot fail; they are constructors.
\<close>

datatype URL = URL string
datatype SharedKeyCredential = SharedKeyCredential string string
datatype Pipeline = NewPipeline SharedKeyCredential
datatype ServiceURL = NewServiceURL URL Pipeline
datatype ContainerURL = NewContainerURL ServiceURL string
datatype BlobURL = NewBlobURL ContainerURL string
datatype BlockBlobURL = NewBlockBlobURL ContainerURL string

datatype DeleteSnapshotsOptionType =
  DeleteSnapshotsOptionNone | DeleteSnapshotsOptionInclude | DeleteSnapshotsOptionOnly

text \<open>
  A listing cursor: \<open>Val\<close> is a pointer to a string. The zero value \<open>Marker{}\<close> has a
  nil \<open>Val\<close>. \<open>NotDone\<close> is true for a nil \<open>Val\<close> and for a non-empty string.
\<close>

datatype Marker = Marker (Val: "string option")

fun NotDone :: "Marker \<Rightarrow> bool" where
  "NotDone (Marker None) = True"
| "NotDone (Marker (Some v)) = (v \<noteq> [])"

datatype BlobItem = BlobItem (Name: string)

record BlobFlatListSegment =
  BlobItems :: "BlobItem list"

record ListBlobsFlatSegmentResponse =
  NextMarker :: Marker
  Segment :: BlobFlatListSegment

text \<open>
  The remote calls. \<open>'w\<close> is the state of the remote store: a read depends on it, a
  write also returns the new state. The arguments are those the file passes (the
  context and the empty option structs are left out). A byte stream, written or read,
  is the string of its bytes.
\<close>

definition CountToEnd :: int where
  "CountToEnd = 0"

record 'w azblob =
  UploadStreamToBlockBlob :: "string \<Rightarrow> BlockBlobURL \<Rightarrow> 'w \<Rightarrow> go_error option \<times> 'w"
  GetProperties :: "BlobURL \<Rightarrow> 'w \<Rightarrow> go_error option"
  Download :: "BlockBlobURL \<Rightarrow> int \<Rightarrow> int \<Rightarrow> 'w \<Rightarrow> go_error + string"
  ListBlobsFlatSegment :: "ContainerURL \<Rightarrow> Marker \<Rightarrow> 'w \<Rightarrow> go_error + ListBlobsFlatSegmentResponse"
  Delete :: "BlockBlobURL \<Rightarrow> DeleteSnapshotsOptionType \<Rightarrow> 'w \<Rightarrow> go_error option \<times> 'w"

subsection \<open>The adapter\<close>

text \<open>Both fields are pointers; \<open>None\<close> is nil. The zero value has both nil.\<close>

record ObjectStorePreview =
  pipeline :: "Pipeline option"
  service :: "ServiceURL option"

text \<open>
  \<open>ObjectExists\<close>. \<open>o.service.NewContainerURL\<close> calls a method with a value receiver
  through the pointer \<open>o.service\<close>, which dereferences it: a nil \<open>service\<close> panics before
  anything else happens. The receiver \<open>o\<close> of the source is written \<open>os\<close> throughout.
\<close>

definition ObjectExists ::
  "'w azblob \<Rightarrow> ObjectStorePreview \<Rightarrow> string \<Rightarrow> string \<Rightarrow> 'w \<Rightarrow> (bool \<times> go_error option) outcome" where
  "ObjectExists sdk os bucket key w =
     (case service os of
        None \<Rightarrow> Panic
      | Some svc \<Rightarrow>
          (let container = NewContainerURL svc bucket;
               blob = NewBlobURL container key;
               err = GetProperties sdk blob w
           in case err of
                None \<Rightarrow> Returns (True, err)
              | Some (StorageError StatusCode msg) \<Rightarrow>
                  if StatusCode = 404 then Returns (False, None) else Returns (False, err)
              | Some (PlainError msg) \<Rightarrow> Returns (False, err)))"

text \<open>
  \<open>PutObject\<close>, \<open>GetObject\<close> and \<open>DeleteObject\<close> start with the same dereference.
  \<open>GetObject\<close> returns a nil reader (\<open>None\<close>) with the error, and the body of the
  response otherwise. \<open>DeleteObject\<close> passes \<open>DeleteSnapshotsOptionNone\<close>.
\<close>

definition PutObject ::
  "'w azblob \<Rightarrow> ObjectStorePreview \<Rightarrow> string \<Rightarrow> string \<Rightarrow> string \<Rightarrow> 'w
     \<Rightarrow> go_error option outcome \<times> 'w" where
  "PutObject sdk os bucket key body w =
     (case service os of
        None \<Rightarrow> (Panic, w)
      | Some svc \<Rightarrow>
          (let container = NewContainerURL svc bucket;
               blobURL = NewBlockBlobURL container key;
               (err, w') = UploadStreamToBlockBlob sdk body blobURL w
           in (if err \<noteq> None then Returns err else Returns None, w')))"

definition GetObject ::
  "'w azblob \<Rightarrow> ObjectStorePreview \<Rightarrow> string \<Rightarrow> string \<Rightarrow> 'w
     \<Rightarrow> (string option \<times> go_error option) outcome" where
  "GetObject sdk os bucket key w =
     (case service os of
        None \<Rightarrow> Panic
      | Some svc \<Rightarrow>
          (let container = NewContainerURL svc bucket;
               blobURL = NewBlockBlobURL container key
           in case Download sdk blobURL 0 CountToEnd w of
                Inl err \<Rightarrow> Returns (None, Some err)
              | Inr response \<Rightarrow> Returns (Some response, None)))"

definition DeleteObject ::
  "'w azblob \<Rightarrow> ObjectStorePreview \<Rightarrow> string \<Rightarrow> string \<Rightarrow> 'w
     \<Rightarrow> go_error option outcome \<times> 'w" where
  "DeleteObject sdk os bucket key w =
     (case service os of
        None \<Rightarrow> (Panic, w)
      | Some svc \<Rightarrow>
          (let container = NewContainerURL svc bucket;
               blobURL = NewBlockBlobURL container key;
               (err, w') = Delete sdk blobURL DeleteSnapshotsOptionNone w
           in (if err \<noteq> None then Returns err else Returns None, w')))"

text \<open>
  The two stubs do not touch the receiver. A Go slice is the list of its elements (nil
  and the empty slice are both \<open>[]\<close>); \<open>errors.New\<close> builds an error that is not a
  storage error.
\<close>

definition ListCommonPrefixes ::
  "ObjectStorePreview \<Rightarrow> string \<Rightarrow> string \<Rightarrow> string \<Rightarrow> (string list \<times> go_error option) outcome" where
  "ListCommonPrefixes os bucket pfx delimiter = Returns ([], None)"

definition CreateSignedURL ::
  "ObjectStorePreview \<Rightarrow> string \<Rightarrow> string \<Rightarrow> int \<Rightarrow> (string \<times> go_error option) outcome" where
  "CreateSignedURL os bucket key ttl = Returns ([], Some (PlainError ''Not Implemented''))"

subsection \<open>Listing\<close>

text \<open>
  \<open>strings.Index s substr\<close> is the index of the first occurrence of \<open>substr\<close> in \<open>s\<close>,
  and \<open>-1\<close> when there is none.
\<close>

fun strings_Index :: "string \<Rightarrow> string \<Rightarrow> int" where
  "strings_Index [] substr = (if substr = [] then 0 else - 1)"
| "strings_Index (c # s) substr =
     (if prefix substr (c # s) then 0
      else (let i = strings_Index s substr in if i < 0 then - 1 else i + 1))"

text \<open>The inner loop over the items of one page; \<open>pfx\<close> is the parameter \<open>prefix\<close>.\<close>

fun ListObjects_range :: "string \<Rightarrow> BlobItem list \<Rightarrow> string list \<Rightarrow> string list" where
  "ListObjects_range pfx [] objects = objects"
| "ListObjects_range pfx (blobInfo # rest) objects =
     ListObjects_range pfx rest
       (if pfx = [] \<or> strings_Index (Name blobInfo) pfx = 0
        then objects @ [Name blobInfo] else objects)"

text \<open>
  The outer loop runs while the cursor is not done, and nothing in the file bounds the
  number of pages: the loop is a partial function, \<open>None\<close> when it never returns.
  \<open>fetch\<close> is the page request of the container at the current remote state.
\<close>

partial_function (option) ListObjects_loop ::
  "(Marker \<Rightarrow> go_error + ListBlobsFlatSegmentResponse) \<Rightarrow> string \<Rightarrow> Marker \<Rightarrow> string list
     \<Rightarrow> (string list \<times> go_error option) option" where
  "ListObjects_loop fetch pfx marker objects =
     (if NotDone marker then
        (case fetch marker of
           Inl err \<Rightarrow> Some ([], Some err)
         | Inr listBlob \<Rightarrow>
             ListObjects_loop fetch pfx (NextMarker listBlob)
               (ListObjects_range pfx (BlobItems (Segment listBlob)) objects))
      else Some (objects, None))"

declare ListObjects_loop.simps [code]

definition ListObjects ::
  "'w azblob \<Rightarrow> ObjectStorePreview \<Rightarrow> string \<Rightarrow> string \<Rightarrow> 'w
     \<Rightarrow> (string list \<times> go_error option) outcome option" where
  "ListObjects sdk os bucket pfx w =
     (case service os of
        None \<Rightarrow> Some Panic
      | Some svc \<Rightarrow>
          (let container = NewContainerURL svc bucket
           in map_option Returns
                (ListObjects_loop (\<lambda>marker. ListBlobsFlatSegment sdk container marker w)
                   pfx (Marker None) [])))"

text \<open>
  What the server holds, as its pages give it: \<open>listing fetch marker names\<close> says that
  the pages from \<open>marker\<close> on are all served, that the cursor is done after finitely
  many of them, and that \<open>names\<close> are the names on these pages in order.
  \<open>listing_fails fetch marker err\<close> says that after finitely many served pages
  (possibly none) the next request fails with \<open>err\<close>.
\<close>

inductive listing ::
  "(Marker \<Rightarrow> go_error + ListBlobsFlatSegmentResponse) \<Rightarrow> Marker \<Rightarrow> string list \<Rightarrow> bool"
  for fetch where
  listing_done: "\<not> NotDone marker \<Longrightarrow> listing fetch marker []"
| listing_page:
    "NotDone marker \<Longrightarrow> fetch marker = Inr listBlob \<Longrightarrow>
     listing fetch (NextMarker listBlob) names \<Longrightarrow>
     listing fetch marker (map Name (BlobItems (Segment listBlob)) @ names)"

inductive listing_fails ::
  "(Marker \<Rightarrow> go_error + ListBlobsFlatSegmentResponse) \<Rightarrow> Marker \<Rightarrow> go_error \<Rightarrow> bool"
  for fetch where
  fails_here: "NotDone marker \<Longrightarrow> fetch marker = Inl err \<Longrightarrow> listing_fails fetch marker err"
| fails_later:
    "NotDone marker \<Longrightarrow> fetch marker = Inr listBlob \<Longrightarrow>
     listing_fails fetch (NextMarker listBlob) err \<Longrightarrow>
     listing_fails fetch marker err"

subsection \<open>Initialisation\<close>

text \<open>
  What \<open>Init\<close> calls outside the file: the host's key validation, the key resolver of
  the plugin (its second result is dropped by \<open>Init\<close>), the credential constructor and
  \<open>url.Parse\<close>, which returns a nil URL together with its error.
\<close>

record collaborators =
  ValidateObjectStoreConfigKeys :: "(string \<rightharpoonup> string) \<Rightarrow> string list \<Rightarrow> go_error option"
  getStorageAccountKey :: "(string \<rightharpoonup> string) \<Rightarrow> go_error + string"
  NewSharedKeyCredential :: "string \<Rightarrow> string \<Rightarrow> go_error + SharedKeyCredential"
  url_Parse :: "string \<Rightarrow> go_error + URL"

text \<open>
  Modelled from the spec: the constant \<open>resourceGroupConfigKey\<close> is declared in another
  file of the plugin; section 6 of the specification names the key \<open>resource-group\<close>.
\<close>

definition resourceGroupConfigKey :: string where
  "resourceGroupConfigKey = ''resource-group''"

text \<open>
  Modelled from the spec: the constant \<open>storageAccountConfigKey\<close> is declared in another
  file of the plugin; section 6 of the specification names the key \<open>storage-account\<close>.
\<close>

definition storageAccountConfigKey :: string where
  "storageAccountConfigKey = ''storage-account''"

text \<open>
  Modelled from the spec: the constant \<open>subscriptionIDConfigKey\<close> is declared in another
  file of the plugin; section 6 of the specification names the key \<open>subscription-id\<close>.
\<close>

definition subscriptionIDConfigKey :: string where
  "subscriptionIDConfigKey = ''subscription-id''"

text \<open>
  Modelled from the spec: the constant \<open>storageAccountKeyEnvVarConfigKey\<close> is declared in
  another file of the plugin; section 6 of the specification names the key
  \<open>storage-account-key-env-var\<close>.
\<close>

definition storageAccountKeyEnvVarConfigKey :: string where
  "storageAccountKeyEnvVarConfigKey = ''storage-account-key-env-var''"

text \<open>Indexing a Go map gives the empty string for an absent key.\<close>

definition index_config :: "(string \<rightharpoonup> string) \<Rightarrow> string \<Rightarrow> string" where
  "index_config config k = (case config k of None \<Rightarrow> [] | Some v \<Rightarrow> v)"

text \<open>\<open>fmt.Sprintf(blob_url_suffix, account)\<close>: the format has one \<open>%s\<close>.\<close>

definition blob_url_suffix :: "string \<Rightarrow> string" where
  "blob_url_suffix account = ''https://'' @ account @ ''.blob.core.windows.net''"

text \<open>
  \<open>Init\<close>. The error of \<open>url.Parse\<close> is assigned to the blank identifier, so the test
  that follows reads \<open>err\<close> as the credential constructor left it: nil, since a non-nil
  value has already returned. \<open>NewServiceURL(*u, pipeline)\<close> dereferences \<open>u\<close>, and the
  two fields are assigned after it.
\<close>

definition Init ::
  "collaborators \<Rightarrow> ObjectStorePreview \<Rightarrow> (string \<rightharpoonup> string)
     \<Rightarrow> go_error option outcome \<times> ObjectStorePreview" where
  "Init env os config =
     (case ValidateObjectStoreConfigKeys env config
             [resourceGroupConfigKey, storageAccountConfigKey,
              subscriptionIDConfigKey, storageAccountKeyEnvVarConfigKey] of
        Some err \<Rightarrow> (Returns (Some err), os)
      | None \<Rightarrow>
     (case getStorageAccountKey env config of
        Inl err \<Rightarrow> (Returns (Some err), os)
      | Inr storageAccountKey \<Rightarrow>
     (case NewSharedKeyCredential env (index_config config storageAccountConfigKey)
             storageAccountKey of
        Inl err \<Rightarrow> (Returns (Some err), os)
      | Inr cred \<Rightarrow>
          (let err = (None :: go_error option);
               u = (case url_Parse env (blob_url_suffix (index_config config storageAccountConfigKey)) of
                      Inl _ \<Rightarrow> None
                    | Inr v \<Rightarrow> Some v)
           in if err \<noteq> None then (Returns err, os)
              else (case u of
                      None \<Rightarrow> (Panic, os)
                    | Some u' \<Rightarrow>
                        (let p = NewPipeline cred;
                             s = NewServiceURL u' p
                         in (Returns None, os\<lparr>pipeline := Some p, service := Some s\<rparr>)))))))"

subsection \<open>A sample store and sample collaborators\<close>

text \<open>
  Concrete parameters on which the operations can be evaluated. The store is a list of
  blobs, each with the number of its snapshots. It answers a probe or a read of an
  absent blob with status 404, lists a container two names to a page (the cursor is the
  name at which the next page starts, empty after the last page), and treats a delete
  as the blob service documents it: without a snapshot option, a blob that has
  snapshots is not deleted and the request fails with status 409.
\<close>

datatype sample_blob =
  SampleBlob (blob_bucket: string) (blob_key: string) (blob_content: string) (blob_snapshots: nat)

type_synonym sample_store = "sample_blob list"

definition sample_at :: "string \<Rightarrow> string \<Rightarrow> sample_blob \<Rightarrow> bool" where
  "sample_at b k x = (blob_bucket x = b \<and> blob_key x = k)"

fun sample_Upload :: "string \<Rightarrow> BlockBlobURL \<Rightarrow> sample_store \<Rightarrow> go_error option \<times> sample_store" where
  "sample_Upload body (NewBlockBlobURL (NewContainerURL svc b) k) w =
     (None, filter (\<lambda>x. \<not> sample_at b k x) w @ [SampleBlob b k body 0])"

fun sample_GetProperties :: "BlobURL \<Rightarrow> sample_store \<Rightarrow> go_error option" where
  "sample_GetProperties (NewBlobURL (NewContainerURL svc b) k) w =
     (case find (sample_at b k) w of
        None \<Rightarrow> Some (StorageError 404 ''BlobNotFound'')
      | Some x \<Rightarrow> None)"

fun sample_Download :: "BlockBlobURL \<Rightarrow> int \<Rightarrow> int \<Rightarrow> sample_store \<Rightarrow> go_error + string" where
  "sample_Download (NewBlockBlobURL (NewContainerURL svc b) k) offset count w =
     (case find (sample_at b k) w of
        None \<Rightarrow> Inl (StorageError 404 ''BlobNotFound'')
      | Some x \<Rightarrow> Inr (drop (nat offset) (blob_content x)))"

fun sample_ListBlobsFlatSegment ::
  "ContainerURL \<Rightarrow> Marker \<Rightarrow> sample_store \<Rightarrow> go_error + ListBlobsFlatSegmentResponse" where
  "sample_ListBlobsFlatSegment (NewContainerURL svc b) marker w =
     (let names = map blob_key (filter (\<lambda>x. blob_bucket x = b) w);
          remaining = (case Val marker of
                         None \<Rightarrow> names
                       | Some m \<Rightarrow> dropWhile (\<lambda>n. n \<noteq> m) names)
      in Inr \<lparr>NextMarker = Marker (Some (case drop 2 remaining of [] \<Rightarrow> [] | n # _ \<Rightarrow> n)),
              Segment = \<lparr>BlobItems = map BlobItem (take 2 remaining)\<rparr>\<rparr>)"

fun sample_Delete ::
  "BlockBlobURL \<Rightarrow> DeleteSnapshotsOptionType \<Rightarrow> sample_store \<Rightarrow> go_error option \<times> sample_store" where
  "sample_Delete (NewBlockBlobURL (NewContainerURL svc b) k) opt w =
     (case find (sample_at b k) w of
        None \<Rightarrow> (Some (StorageError 404 ''BlobNotFound''), w)
      | Some x \<Rightarrow>
          (case opt of
             DeleteSnapshotsOptionNone \<Rightarrow>
               if blob_snapshots x = 0 then (None, filter (\<lambda>y. \<not> sample_at b k y) w)
               else (Some (StorageError 409 ''SnapshotsPresent''), w)
           | DeleteSnapshotsOptionInclude \<Rightarrow> (None, filter (\<lambda>y. \<not> sample_at b k y) w)
           | DeleteSnapshotsOptionOnly \<Rightarrow>
               (None, map (\<lambda>y. if sample_at b k y then SampleBlob b k (blob_content y) 0 else y) w)))"

definition sample_sdk :: "sample_store azblob" where
  "sample_sdk =
     \<lparr>UploadStreamToBlockBlob = sample_Upload,
      GetProperties = sample_GetProperties,
      Download = sample_Download,
      ListBlobsFlatSegment = sample_ListBlobsFlatSegment,
      Delete = sample_Delete\<rparr>"

text \<open>A remote on which every call fails with the given error.\<close>

definition failing_sdk :: "go_error \<Rightarrow> sample_store azblob" where
  "failing_sdk e =
     \<lparr>UploadStreamToBlockBlob = (\<lambda>body blobURL w. (Some e, w)),
      GetProperties = (\<lambda>blob w. Some e),
      Download = (\<lambda>blobURL offset count w. Inl e),
      ListBlobsFlatSegment = (\<lambda>container marker w. Inl e),
      Delete = (\<lambda>blobURL opt w. (Some e, w))\<rparr>"

text \<open>A remote that serves the first page of a listing and fails on every later page.\<close>

definition flaky_sdk :: "go_error \<Rightarrow> sample_store azblob" where
  "flaky_sdk e =
     sample_sdk\<lparr>ListBlobsFlatSegment :=
       (\<lambda>container marker w.
          case Val marker of
            None \<Rightarrow> sample_ListBlobsFlatSegment container marker w
          | Some m \<Rightarrow> Inl e)\<rparr>"

definition sample_store1 :: sample_store where
  "sample_store1 =
     [SampleBlob ''backups'' ''b1/meta.json'' ''{}'' 0,
      SampleBlob ''backups'' ''b1/data.tar'' ''tar'' 1,
      SampleBlob ''backups'' ''b2/meta.json'' ''{}'' 0,
      SampleBlob ''other'' ''b1/x'' ''x'' 0]"

text \<open>
  Sample collaborators of \<open>Init\<close>, each a stand-in that agrees with the real one on
  the inputs used below.
  \<^item> The validator works as the host's does: it rejects a configuration that has a key
    other than the given ones and \<open>bucket\<close>, \<open>prefix\<close> and \<open>caCert\<close>, which the
    host adds itself. It does not ask for any key to be present.
  \<^item> The key resolver reads the variable that the configuration names from an
    environment of two variables, and fails when that variable is not set.
  \<^item> The credential constructor rejects a key with a space in it, which is not base64;
    the real constructor rejects every key that is not base64.
  \<^item> The parser rejects a URL with a space in its authority (what follows
    \<open>https://\<close> up to the first \<open>/\<close>, \<open>?\<close> or \<open>#\<close>); \<open>url.Parse\<close> rejects these
    and others.
\<close>

definition sample_environ :: "string \<rightharpoonup> string" where
  "sample_environ = [''KEY'' \<mapsto> ''base64secret'', ''BADKEY'' \<mapsto> ''not base64'']"

definition sample_env :: collaborators where
  "sample_env =
     \<lparr>ValidateObjectStoreConfigKeys =
        (\<lambda>config validKeys.
           if dom config \<subseteq> set (validKeys @ [''bucket'', ''prefix'', ''caCert''])
           then None else Some (PlainError ''config has invalid keys'')),
      getStorageAccountKey =
        (\<lambda>config.
           case sample_environ (index_config config storageAccountKeyEnvVarConfigKey) of
             None \<Rightarrow> Inl (PlainError ''no storage account key found in env var'')
           | Some v \<Rightarrow> Inr v),
      NewSharedKeyCredential =
        (\<lambda>accountName accountKey.
           if CHR '' '' \<in> set accountKey then Inl (PlainError ''illegal base64 data'')
           else Inr (SharedKeyCredential accountName accountKey)),
      url_Parse =
        (\<lambda>rawURL.
           if CHR '' '' \<in> set (takeWhile (\<lambda>c. c \<notin> set ''/?#'') (drop 8 rawURL))
           then Inl (PlainError ''invalid character in host name'')
           else Inr (URL rawURL))\<rparr>"

definition sample_config :: "string \<Rightarrow> string \<Rightarrow> (string \<rightharpoonup> string)" where
  "sample_config account var =
     [''storage-account'' \<mapsto> account, ''storage-account-key-env-var'' \<mapsto> var,
      ''subscription-id'' \<mapsto> ''sub1'', ''resource-group'' \<mapsto> ''rg1'']"

definition zero_adapter :: ObjectStorePreview where
  "zero_adapter = \<lparr>pipeline = None, service = None\<rparr>"

definition sample_pipeline :: Pipeline where
  "sample_pipeline = NewPipeline (SharedKeyCredential ''acct1'' ''base64secret'')"

definition sample_service :: ServiceURL where
  "sample_service = NewServiceURL (URL ''https://acct1.blob.core.windows.net'') sample_pipeline"

definition ready_adapter :: ObjectStorePreview where
  "ready_adapter = \<lparr>pipeline = Some sample_pipeline, service = Some sample_service\<rparr>"

section \<open>Properties\<close>

subsection \<open>Auxiliary facts\<close>

lemmas sample_defs =
  sample_env_def sample_config_def zero_adapter_def ready_adapter_def
  sample_service_def sample_pipeline_def index_config_def blob_url_suffix_def sample_environ_def
  resourceGroupConfigKey_def storageAccountConfigKey_def subscriptionIDConfigKey_def
  storageAccountKeyEnvVarConfigKey_def sample_sdk_def failing_sdk_def flaky_sdk_def
  sample_store1_def sample_at_def

text \<open>The test \<open>strings.Index(name, prefix) == 0\<close> is the literal prefix test.\<close>

lemma strings_Index_eq_0_iff: "strings_Index s p = 0 \<longleftrightarrow> prefix p s"
  by (cases s) (auto simp: Let_def)

text \<open>One page appends its matching names, in order, to what has been collected.\<close>

lemma ListObjects_range_filter:
  "ListObjects_range pfx items objects = objects @ filter (prefix pfx) (map Name items)"
  by (induction items arbitrary: objects) (auto simp: strings_Index_eq_0_iff)

text \<open>
  The loop on a listing that ends returns, and on a listing that fails returns. Both are
  proved by rule induction on the pages, the collected names generalised.
\<close>

lemma ListObjects_loop_listing:
  "listing fetch marker names \<Longrightarrow>
   ListObjects_loop fetch pfx marker objects = Some (objects @ filter (prefix pfx) names, None)"
proof (induction arbitrary: objects rule: listing.induct)
  case (listing_done marker)
  then show ?case by (subst ListObjects_loop.simps) simp
next
  case (listing_page marker listBlob names)
  show ?case
    by (subst ListObjects_loop.simps) (simp add: listing_page ListObjects_range_filter)
qed

lemma ListObjects_loop_fails:
  "listing_fails fetch marker err \<Longrightarrow>
   ListObjects_loop fetch pfx marker objects = Some ([], Some err)"
proof (induction arbitrary: objects rule: listing_fails.induct)
  case (fails_here marker err)
  then show ?case by (subst ListObjects_loop.simps) simp
next
  case (fails_later marker listBlob err)
  show ?case
    by (subst ListObjects_loop.simps) (simp add: fails_later)
qed

subsection \<open>ObjectExists\<close>

text \<open>
  Claim C1. On an initialised adapter, \<open>ObjectExists\<close> returns true and no error when the
  metadata probe succeeds; it returns false and no error exactly when the probe fails with
  a storage error of status 404; and every other failure of the probe comes back as that
  error, with false.
\<close>

theorem ObjectExists_probe:
  assumes "service os = Some svc"
  shows "(GetProperties sdk (NewBlobURL (NewContainerURL svc bucket) key) w = None \<longrightarrow>
            ObjectExists sdk os bucket key w = Returns (True, None)) \<and>
         (ObjectExists sdk os bucket key w = Returns (False, None) \<longleftrightarrow>
            (\<exists>msg. GetProperties sdk (NewBlobURL (NewContainerURL svc bucket) key) w
                      = Some (StorageError 404 msg))) \<and>
         (\<forall>e. GetProperties sdk (NewBlobURL (NewContainerURL svc bucket) key) w = Some e \<longrightarrow>
              (\<forall>msg. e \<noteq> StorageError 404 msg) \<longrightarrow>
              ObjectExists sdk os bucket key w = Returns (False, Some e))"
  using assms by (auto simp: ObjectExists_def Let_def split: option.splits go_error.splits)

text \<open>
  The theorem at a blob that exists, at one that does not, at a remote that answers 503
  and at a transport failure.
\<close>

theorem ObjectExists_probe_witness:
  "ObjectExists sample_sdk ready_adapter ''backups'' ''b1/meta.json'' sample_store1
     = Returns (True, None) \<and>
   ObjectExists sample_sdk ready_adapter ''backups'' ''b9/meta.json'' sample_store1
     = Returns (False, None) \<and>
   ObjectExists (failing_sdk (StorageError 503 ''ServerBusy'')) ready_adapter ''backups''
       ''b1/meta.json'' sample_store1
     = Returns (False, Some (StorageError 503 ''ServerBusy'')) \<and>
   ObjectExists (failing_sdk (PlainError ''dial tcp: i/o timeout'')) ready_adapter ''backups''
       ''b1/meta.json'' sample_store1
     = Returns (False, Some (PlainError ''dial tcp: i/o timeout''))"
proof -
  have r: "service ready_adapter = Some sample_service"
    by (simp add: ready_adapter_def)
  show ?thesis
    using ObjectExists_probe [OF r, of sample_sdk "''backups''" "''b1/meta.json''" sample_store1]
      ObjectExists_probe [OF r, of sample_sdk "''backups''" "''b9/meta.json''" sample_store1]
      ObjectExists_probe [OF r, of "failing_sdk (StorageError 503 ''ServerBusy'')"
        "''backups''" "''b1/meta.json''" sample_store1]
      ObjectExists_probe [OF r, of "failing_sdk (PlainError ''dial tcp: i/o timeout'')"
        "''backups''" "''b1/meta.json''" sample_store1]
    by (simp add: sample_sdk_def failing_sdk_def sample_service_def sample_store1_def sample_at_def)
qed

text \<open>
  Claim C10. Whatever \<open>ObjectExists\<close> returns, the two results are linked: true comes
  with no error, an error comes with false, and false with no error arises only when the
  probe failed with a storage error of status 404.
\<close>

theorem ObjectExists_result_linked:
  assumes "ObjectExists sdk os bucket key w = Returns (b, e)"
  shows "(b \<longrightarrow> e = None) \<and> (e \<noteq> None \<longrightarrow> \<not> b) \<and>
         (\<not> b \<and> e = None \<longrightarrow>
            (\<exists>svc msg. service os = Some svc \<and>
               GetProperties sdk (NewBlobURL (NewContainerURL svc bucket) key) w
                 = Some (StorageError 404 msg)))"
proof (cases "service os")
  case None
  with assms show ?thesis by (simp add: ObjectExists_def)
next
  case (Some svc)
  show ?thesis
  proof (cases "GetProperties sdk (NewBlobURL (NewContainerURL svc bucket) key) w")
    case None
    then have "ObjectExists sdk os bucket key w = Returns (True, None)"
      by (simp add: ObjectExists_def Some)
    with assms have "b = True" "e = None" by simp_all
    then show ?thesis by simp
  next
    case probe: (Some err)
    show ?thesis
    proof (cases err)
      case (StorageError StatusCode msg)
      show ?thesis
      proof (cases "StatusCode = 404")
        case True
        then have "ObjectExists sdk os bucket key w = Returns (False, None)"
          by (simp add: ObjectExists_def Some probe StorageError)
        with assms have "b = False" "e = None" by simp_all
        moreover have "GetProperties sdk (NewBlobURL (NewContainerURL svc bucket) key) w
                         = Some (StorageError 404 msg)"
          using probe StorageError True by simp
        ultimately show ?thesis using Some by blast
      next
        case False
        then have "ObjectExists sdk os bucket key w = Returns (False, Some err)"
          by (simp add: ObjectExists_def Some probe StorageError)
        with assms have "b = False" "e = Some err" by simp_all
        then show ?thesis by simp
      qed
    next
      case (PlainError msg)
      have "ObjectExists sdk os bucket key w = Returns (False, Some err)"
        by (simp add: ObjectExists_def Some probe PlainError)
      with assms have "b = False" "e = Some err" by simp_all
      then show ?thesis by simp
    qed
  qed
qed

text \<open>The theorem at a blob that the sample store does not hold.\<close>

theorem ObjectExists_result_linked_witness:
  "ObjectExists sample_sdk ready_adapter ''backups'' ''b9/meta.json'' sample_store1
     = Returns (False, None) \<and>
   (\<exists>svc msg. service ready_adapter = Some svc \<and>
      GetProperties sample_sdk (NewBlobURL (NewContainerURL svc ''backups'') ''b9/meta.json'')
        sample_store1 = Some (StorageError 404 msg))"
proof -
  have h: "ObjectExists sample_sdk ready_adapter ''backups'' ''b9/meta.json'' sample_store1
             = Returns (False, None)"
    by (simp add: ObjectExists_def ready_adapter_def sample_sdk_def sample_service_def
        sample_store1_def sample_at_def)
  from ObjectExists_result_linked [OF h] h show ?thesis by simp
qed

subsection \<open>Init\<close>

text \<open>
  Claim C2. When validation, key resolution and credential construction succeed and
  \<open>url.Parse\<close> rejects the endpoint built from the storage account, \<open>Init\<close> does not
  return an error: the error of the parser is dropped, the test that follows reads the
  nil error of the credential constructor, and the nil URL is dereferenced. The adapter
  is left as it was.
\<close>

theorem Init_unparsable_endpoint:
  assumes "ValidateObjectStoreConfigKeys env config
             [resourceGroupConfigKey, storageAccountConfigKey,
              subscriptionIDConfigKey, storageAccountKeyEnvVarConfigKey] = None"
    and "getStorageAccountKey env config = Inr storageAccountKey"
    and "NewSharedKeyCredential env (index_config config storageAccountConfigKey)
           storageAccountKey = Inr cred"
    and "url_Parse env (blob_url_suffix (index_config config storageAccountConfigKey)) = Inl e"
  shows "Init env os config = (Panic, os)"
  using assms by (simp add: Init_def)

text \<open>The theorem at the storage account name \<open>a b\<close>, which the sample parser rejects.\<close>

theorem Init_unparsable_endpoint_witness:
  "Init sample_env zero_adapter (sample_config ''a b'' ''KEY'') = (Panic, zero_adapter)"
proof -
  have v: "ValidateObjectStoreConfigKeys sample_env (sample_config ''a b'' ''KEY'')
             [resourceGroupConfigKey, storageAccountConfigKey,
              subscriptionIDConfigKey, storageAccountKeyEnvVarConfigKey] = None"
    by (simp add: sample_defs)
  have k: "getStorageAccountKey sample_env (sample_config ''a b'' ''KEY'') = Inr ''base64secret''"
    by (simp add: sample_defs)
  have c: "NewSharedKeyCredential sample_env
             (index_config (sample_config ''a b'' ''KEY'') storageAccountConfigKey)
             ''base64secret'' = Inr (SharedKeyCredential ''a b'' ''base64secret'')"
    by (simp add: sample_defs)
  have u: "url_Parse sample_env
             (blob_url_suffix (index_config (sample_config ''a b'' ''KEY'') storageAccountConfigKey))
             = Inl (PlainError ''invalid character in host name'')"
    by (simp add: sample_defs)
  show ?thesis by (rule Init_unparsable_endpoint [OF v k c u])
qed



subsection \<open>DeleteObject\<close>

text \<open>
  Claim C3, as stated, fails: \<open>DeleteObject\<close> does not delete a blob together with its
  snapshots. On the sample store, deleting \<open>b1/data.tar\<close>, which has one snapshot,
  returns the 409 error of the service and leaves the store as it was. The request that
  removes the blob with its snapshot carries \<open>DeleteSnapshotsOptionInclude\<close>, which
  \<open>DeleteObject\<close> does not pass.
\<close>

theorem DeleteObject_snapshots_counterexample:
  "DeleteObject sample_sdk ready_adapter ''backups'' ''b1/data.tar'' sample_store1
     = (Returns (Some (StorageError 409 ''SnapshotsPresent'')), sample_store1) \<and>
   find (sample_at ''backups'' ''b1/data.tar'') sample_store1
     = Some (SampleBlob ''backups'' ''b1/data.tar'' ''tar'' 1) \<and>
   Delete sample_sdk (NewBlockBlobURL (NewContainerURL sample_service ''backups'') ''b1/data.tar'')
       DeleteSnapshotsOptionInclude sample_store1
     = (None,
        [SampleBlob ''backups'' ''b1/meta.json'' ''{}'' 0,
         SampleBlob ''backups'' ''b2/meta.json'' ''{}'' 0,
         SampleBlob ''other'' ''b1/x'' ''x'' 0])"
  by (simp add: DeleteObject_def sample_defs)

text \<open>
  Claim C3, amended. On an initialised adapter, \<open>DeleteObject\<close> issues one delete
  request for the blob with the snapshot option \<open>DeleteSnapshotsOptionNone\<close>, that is,
  without asking for snapshots to be deleted, and returns what the request returns: nil
  when it succeeds, its error when it fails (a missing blob and a transport failure
  included). The remote state is the one the request leaves.
\<close>

theorem DeleteObject_request:
  assumes "service os = Some svc"
  shows "DeleteObject sdk os bucket key w =
           (case Delete sdk (NewBlockBlobURL (NewContainerURL svc bucket) key)
                   DeleteSnapshotsOptionNone w of
              (err, w') \<Rightarrow> (Returns err, w'))"
  using assms by (auto simp: DeleteObject_def Let_def split: prod.splits)

text \<open>The theorem at a blob without snapshots, which is removed, and at a missing blob.\<close>

theorem DeleteObject_request_witness:
  "DeleteObject sample_sdk ready_adapter ''backups'' ''b1/meta.json'' sample_store1 =
     (Returns None,
      [SampleBlob ''backups'' ''b1/data.tar'' ''tar'' 1,
       SampleBlob ''backups'' ''b2/meta.json'' ''{}'' 0,
       SampleBlob ''other'' ''b1/x'' ''x'' 0]) \<and>
   DeleteObject sample_sdk ready_adapter ''backups'' ''b9/meta.json'' sample_store1 =
     (Returns (Some (StorageError 404 ''BlobNotFound'')), sample_store1)"
proof -
  have r: "service ready_adapter = Some sample_service"
    by (simp add: ready_adapter_def)
  show ?thesis
    using DeleteObject_request [OF r, of sample_sdk "''backups''" "''b1/meta.json''" sample_store1]
      DeleteObject_request [OF r, of sample_sdk "''backups''" "''b9/meta.json''" sample_store1]
    by (simp add: sample_sdk_def sample_service_def sample_store1_def sample_at_def)
qed

subsection \<open>ListObjects\<close>

text \<open>
  Claim C4. On an initialised adapter, when the pages of the container are all served and
  the cursor is done after finitely many of them, \<open>ListObjects\<close> returns, with no
  error, and what it returns are the names on these pages that start with the prefix, as a
  literal string prefix: exactly those names, in page order. The empty prefix keeps every
  name, and the result is empty when no name matches.
\<close>

theorem ListObjects_all_pages:
  assumes "service os = Some svc"
    and "listing (\<lambda>marker. ListBlobsFlatSegment sdk (NewContainerURL svc bucket) marker w)
           (Marker None) names"
  shows "\<exists>objects.
           ListObjects sdk os bucket pfx w = Some (Returns (objects, None)) \<and>
           objects = filter (prefix pfx) names \<and>
           set objects = {n \<in> set names. \<exists>rest. n = pfx @ rest} \<and>
           (pfx = [] \<longrightarrow> objects = names) \<and>
           ((\<forall>n \<in> set names. \<not> prefix pfx n) \<longrightarrow> objects = [])"
proof -
  have "ListObjects sdk os bucket pfx w = Some (Returns (filter (prefix pfx) names, None))"
    using assms(1) ListObjects_loop_listing [OF assms(2), of pfx "[]"]
    by (simp add: ListObjects_def)
  moreover have "set (filter (prefix pfx) names) = {n \<in> set names. \<exists>rest. n = pfx @ rest}"
    by (auto simp: prefix_def)
  moreover have "pfx = [] \<longrightarrow> filter (prefix pfx) names = names"
    by simp
  moreover have "(\<forall>n \<in> set names. \<not> prefix pfx n) \<longrightarrow> filter (prefix pfx) names = []"
    by (simp add: filter_empty_conv)
  ultimately show ?thesis by blast
qed

text \<open>
  The theorem at the sample store, where the container \<open>backups\<close> takes two pages and
  two of its three names start with \<open>b1/\<close>.
\<close>

theorem ListObjects_all_pages_witness:
  "ListObjects sample_sdk ready_adapter ''backups'' ''b1/'' sample_store1
     = Some (Returns ([''b1/meta.json'', ''b1/data.tar''], None))"
proof -
  let ?fetch = "\<lambda>marker. ListBlobsFlatSegment sample_sdk
                   (NewContainerURL sample_service ''backups'') marker sample_store1"
  let ?r1 = "\<lparr>NextMarker = Marker (Some ''b2/meta.json''),
              Segment = \<lparr>BlobItems = [BlobItem ''b1/meta.json'', BlobItem ''b1/data.tar'']\<rparr>\<rparr>"
  let ?r2 = "\<lparr>NextMarker = Marker (Some []),
              Segment = \<lparr>BlobItems = [BlobItem ''b2/meta.json'']\<rparr>\<rparr>"
  have r: "service ready_adapter = Some sample_service"
    by (simp add: ready_adapter_def)
  have p1: "?fetch (Marker None) = Inr ?r1"
    by (simp add: sample_sdk_def sample_service_def sample_store1_def)
  have p2: "?fetch (Marker (Some ''b2/meta.json'')) = Inr ?r2"
    by (simp add: sample_sdk_def sample_service_def sample_store1_def)
  have l3: "listing ?fetch (Marker (Some [])) []"
    by (rule listing_done) simp
  have l2: "listing ?fetch (Marker (Some ''b2/meta.json''))
              (map Name (BlobItems (Segment ?r2)) @ [])"
  proof (rule listing_page)
    show "NotDone (Marker (Some ''b2/meta.json''))" by simp
    show "?fetch (Marker (Some ''b2/meta.json'')) = Inr ?r2" by (rule p2)
    show "listing ?fetch (NextMarker ?r2) []" using l3 by simp
  qed
  have l1: "listing ?fetch (Marker None)
              (map Name (BlobItems (Segment ?r1)) @ map Name (BlobItems (Segment ?r2)) @ [])"
  proof (rule listing_page)
    show "NotDone (Marker None)" by simp
    show "?fetch (Marker None) = Inr ?r1" by (rule p1)
    show "listing ?fetch (NextMarker ?r1) (map Name (BlobItems (Segment ?r2)) @ [])"
      using l2 by simp
  qed
  from ListObjects_all_pages [OF r l1, of "''b1/''"] show ?thesis by simp
qed

text \<open>
  Claim C5. On an initialised adapter, when a page request fails, after any number of
  served pages, \<open>ListObjects\<close> returns that error and an empty result: the names
  collected from the earlier pages are not returned.
\<close>

theorem ListObjects_page_error:
  assumes "service os = Some svc"
    and "listing_fails (\<lambda>marker. ListBlobsFlatSegment sdk (NewContainerURL svc bucket) marker w)
           (Marker None) err"
  shows "ListObjects sdk os bucket pfx w = Some (Returns ([], Some err))"
  using assms(1) ListObjects_loop_fails [OF assms(2), of pfx "[]"]
  by (simp add: ListObjects_def)

text \<open>
  The theorem at a remote that serves the first page, with two matching names, and fails
  on the second.
\<close>

theorem ListObjects_page_error_witness:
  "ListObjects (flaky_sdk (PlainError ''connection reset'')) ready_adapter ''backups'' ''b1/''
     sample_store1 = Some (Returns ([], Some (PlainError ''connection reset'')))"
proof -
  let ?fetch = "\<lambda>marker. ListBlobsFlatSegment (flaky_sdk (PlainError ''connection reset''))
                   (NewContainerURL sample_service ''backups'') marker sample_store1"
  let ?r1 = "\<lparr>NextMarker = Marker (Some ''b2/meta.json''),
              Segment = \<lparr>BlobItems = [BlobItem ''b1/meta.json'', BlobItem ''b1/data.tar'']\<rparr>\<rparr>"
  have r: "service ready_adapter = Some sample_service"
    by (simp add: ready_adapter_def)
  have p1: "?fetch (Marker None) = Inr ?r1"
    by (simp add: flaky_sdk_def sample_sdk_def sample_service_def sample_store1_def)
  have p2: "?fetch (Marker (Some ''b2/meta.json'')) = Inl (PlainError ''connection reset'')"
    by (simp add: flaky_sdk_def sample_sdk_def)
  have f2: "listing_fails ?fetch (Marker (Some ''b2/meta.json'')) (PlainError ''connection reset'')"
  proof (rule fails_here)
    show "NotDone (Marker (Some ''b2/meta.json''))" by simp
    show "?fetch (Marker (Some ''b2/meta.json'')) = Inl (PlainError ''connection reset'')"
      by (rule p2)
  qed
  have f1: "listing_fails ?fetch (Marker None) (PlainError ''connection reset'')"
  proof (rule fails_later)
    show "NotDone (Marker None)" by simp
    show "?fetch (Marker None) = Inr ?r1" by (rule p1)
    show "listing_fails ?fetch (NextMarker ?r1) (PlainError ''connection reset'')"
      using f2 by simp
  qed
  show ?thesis by (rule ListObjects_page_error [OF r f1])
qed

subsection \<open>The stubs\<close>

text \<open>
  Claim C6. \<open>ListCommonPrefixes\<close> returns an empty sequence and no error, for every
  adapter, bucket, prefix and delimiter.
\<close>

theorem ListCommonPrefixes_empty:
  "ListCommonPrefixes os bucket pfx delimiter = Returns ([], None)"
  by (simp add: ListCommonPrefixes_def)

text \<open>
  Claim C7. \<open>CreateSignedURL\<close> returns the empty string and the fixed error
  \<open>Not Implemented\<close>, for every adapter, bucket, key and duration.
\<close>

theorem CreateSignedURL_not_implemented:
  "CreateSignedURL os bucket key ttl = Returns ([], Some (PlainError ''Not Implemented''))"
  by (simp add: CreateSignedURL_def)

subsection \<open>Operations on an adapter that was never initialised\<close>

text \<open>
  Claim C9, as stated, fails: an operation on an adapter without a service handle does
  dereference the absent handle. \<open>ObjectExists\<close> on the zero value panics.
\<close>

theorem uninitialized_counterexample:
  "ObjectExists sample_sdk zero_adapter ''backups'' ''b1/meta.json'' sample_store1 = Panic"
  by (simp add: ObjectExists_def zero_adapter_def)

text \<open>
  Claim C9, amended. \<open>PutObject\<close>, \<open>ObjectExists\<close>, \<open>GetObject\<close>, \<open>ListObjects\<close> and
  \<open>DeleteObject\<close>, called on an adapter whose service handle is nil, return no result
  and no error: each panics on the dereference of the handle in its first statement,
  whatever the remote is, and the remote state is untouched.
\<close>

theorem uninitialized_panics:
  assumes "service os = None"
  shows "PutObject sdk os bucket key body w = (Panic, w) \<and>
         ObjectExists sdk os bucket key w = Panic \<and>
         GetObject sdk os bucket key w = Panic \<and>
         ListObjects sdk os bucket pfx w = Some Panic \<and>
         DeleteObject sdk os bucket key w = (Panic, w)"
  using assms
  by (simp add: PutObject_def ObjectExists_def GetObject_def ListObjects_def DeleteObject_def)

text \<open>The theorem at the zero value of the adapter.\<close>

theorem uninitialized_panics_witness:
  "PutObject sample_sdk zero_adapter ''backups'' ''b1/meta.json'' ''{}'' sample_store1
     = (Panic, sample_store1) \<and>
   ObjectExists sample_sdk zero_adapter ''backups'' ''b1/meta.json'' sample_store1 = Panic \<and>
   GetObject sample_sdk zero_adapter ''backups'' ''b1/meta.json'' sample_store1 = Panic \<and>
   ListObjects sample_sdk zero_adapter ''backups'' ''b1/'' sample_store1 = Some Panic \<and>
   DeleteObject sample_sdk zero_adapter ''backups'' ''b1/meta.json'' sample_store1
     = (Panic, sample_store1)"
proof -
  have z: "service zero_adapter = None"
    by (simp add: zero_adapter_def)
  show ?thesis by (rule uninitialized_panics [OF z])
qed

end
